theory Spec2Isabelle
  imports Main "HOL-Library.Multiset"
begin

section \<open>Documents and collections\<close>

text \<open>
  The backend keeps four collections: \<open>users\<close>, \<open>sessions\<close>, \<open>articles\<close> and
  \<open>comments\<close>. A collection is the list of its documents in natural (insertion) order,
  which is the order in which a single-document operation picks "the first match".
  An ObjectId is written as its string form, 24 lowercase hexadecimal digits, so
  \<open>String(doc._id)\<close> is the id itself; where the cast of a path parameter is not
  written out, the parameter is an id in this form. Timestamps are integers; a counter is a
  JavaScript Number with an integer value, written as that integer. Store calls are
  taken to succeed: the only failures are the ones written out below.
\<close>

type_synonym oid = string

text \<open>\<open>UserSessionSchema\<close>, field by field.\<close>

record session_doc =
  session_id :: oid
  session_userId :: string
  session_isRemoved :: bool
  session_created :: int

text \<open>
  Modelled from the spec: the User, Article and Comment schemas (\<open>models/User\<close>,
  \<open>models/Article\<close>, \<open>models/Comment\<close>) are imported by the routers but are not among
  the source files. The records hold the attributes \<S>3 lists, under the field names the
  routers use (\<open>isRemoved\<close>, \<open>title\<close>, \<open>slug\<close>, \<open>views\<close>, \<open>user\<close>, \<open>comments\<close>,
  \<open>articleId\<close>, \<open>created\<close>); the profile is cut down to a name and the content to a
  text. An article field the body of its create left out is \<open>None\<close>.
\<close>

record user_doc =
  user_id :: oid
  user_name :: string
  user_isRemoved :: bool
  user_created :: int

record article_doc =
  article_id :: oid
  title :: string
  slug :: string
  article_text :: "string option"
  views :: int
  article_user :: "oid option"
  article_comments :: "oid list"
  article_created :: int

record comment_doc =
  comment_id :: oid
  comment_articleId :: oid
  comment_user :: oid
  comment_body :: string
  comment_created :: int

record store =
  users :: "user_doc list"
  sessions :: "session_doc list"
  articles :: "article_doc list"
  comments :: "comment_doc list"

section \<open>The Mongoose operations the routers call\<close>

text \<open>
  \<open>findOne\<close> returns the first document that matches the filter, or null (\<open>None\<close>).
\<close>

definition findOne :: "('a \<Rightarrow> bool) \<Rightarrow> 'a list \<Rightarrow> 'a option" where
  "findOne P xs = find P xs"

text \<open>
  \<open>updateOne\<close> changes the first matching document and no other. \<open>Model.update\<close>
  called without \<open>multi: true\<close>, \<open>Model.updateOne\<close> and the write half of
  \<open>findOneAndUpdate\<close> / \<open>findByIdAndUpdate\<close> all behave this way.
\<close>

fun updateOne :: "('a \<Rightarrow> bool) \<Rightarrow> ('a \<Rightarrow> 'a) \<Rightarrow> 'a list \<Rightarrow> 'a list" where
  "updateOne P f [] = []"
| "updateOne P f (x # xs) = (if P x then f x # xs else x # updateOne P f xs)"

text \<open>\<open>removeOne\<close> deletes the first matching document: the write half of \<open>findByIdAndRemove\<close>.\<close>

fun removeOne :: "('a \<Rightarrow> bool) \<Rightarrow> 'a list \<Rightarrow> 'a list" where
  "removeOne P [] = []"
| "removeOne P (x # xs) = (if P x then xs else x # removeOne P xs)"

text \<open>\<open>Model.deleteMany\<close> and \<open>Model.remove\<close> delete every matching document.\<close>

definition deleteMany :: "('a \<Rightarrow> bool) \<Rightarrow> 'a list \<Rightarrow> 'a list" where
  "deleteMany P xs = filter (\<lambda>x. \<not> P x) xs"

text \<open>
  \<open>findOneAndUpdate(filter, update, {new: true})\<close> returns the document as it is after
  the update together with the collection; \<open>findByIdAndRemove\<close> returns the document it
  removed.
\<close>

definition findOneAndUpdate ::
  "('a \<Rightarrow> bool) \<Rightarrow> ('a \<Rightarrow> 'a) \<Rightarrow> 'a list \<Rightarrow> 'a option \<times> 'a list" where
  "findOneAndUpdate P f xs = (map_option f (findOne P xs), updateOne P f xs)"

definition findOneAndRemove :: "('a \<Rightarrow> bool) \<Rightarrow> 'a list \<Rightarrow> 'a option \<times> 'a list" where
  "findOneAndRemove P xs = (findOne P xs, removeOne P xs)"

text \<open>\<open>.sort({created: -1})\<close>: newest first, ties in natural order.\<close>

definition sort_created_desc :: "('a \<Rightarrow> int) \<Rightarrow> 'a list \<Rightarrow> 'a list" where
  "sort_created_desc created xs = sort_key (\<lambda>x. - created x) xs"

text \<open>
  Casting a string to an ObjectId, as Mongoose does with a filter on \<open>_id\<close>: a string of
  24 hexadecimal digits (in either case) is the id with those digits, a string of 12
  characters is the id with those 12 bytes, and any other string is refused with a
  CastError.
\<close>

definition hex_digit :: "char \<Rightarrow> bool" where
  "hex_digit c =
     (let n = (of_char c :: nat)
      in (48 \<le> n \<and> n \<le> 57) \<or> (65 \<le> n \<and> n \<le> 70) \<or> (97 \<le> n \<and> n \<le> 102))"

definition lower_hex :: "char \<Rightarrow> char" where
  "lower_hex c =
     (let n = (of_char c :: nat) in if 65 \<le> n \<and> n \<le> 70 then char_of (n + 32) else c)"

definition hex_of :: "nat \<Rightarrow> char" where
  "hex_of n = (if n < 10 then char_of (48 + n) else char_of (87 + n))"

definition toHexString :: "string \<Rightarrow> string" where
  "toHexString s =
     concat (map (\<lambda>c. [hex_of ((of_char c :: nat) div 16), hex_of ((of_char c :: nat) mod 16)]) s)"

definition castObjectId :: "string \<Rightarrow> oid option" where
  "castObjectId s =
     (if length s = 24 \<and> list_all hex_digit s then Some (map lower_hex s)
      else if length s = 12 then Some (toHexString s)
      else None)"

text \<open>
  \<open>$inc\<close> on a counter adds in double precision. Integers up to \<open>2^53\<close> in magnitude are
  doubles; above that the doubles are \<open>ulp\<close> apart, and a sum is rounded to the nearest
  of them, to the one with the even significand on a tie.
\<close>

function ulp :: "nat \<Rightarrow> nat" where
  "ulp a = (if a < 2 ^ 53 then 1 else 2 * ulp (a div 2))"
  by pat_completeness auto
termination
  by (relation "measure (\<lambda>a. a)") auto

declare ulp.simps [simp del]

definition to_double :: "int \<Rightarrow> int" where
  "to_double m =
     (let a = nat \<bar>m\<bar>; u = ulp a; q = a div u; r = a mod u;
          q' = (if 2 * r < u then q else if u < 2 * r then q + 1
                else if even q then q else q + 1)
      in sgn m * int (q' * u))"

definition inc :: "int \<Rightarrow> int \<Rightarrow> int" where
  "inc v n = to_double (v + n)"

section \<open>Requests, responses and outcomes\<close>

text \<open>
  A handler sees the request after its middleware ran: the body as the validators left
  it, and the errors they recorded, which is what \<open>validationResult(req)\<close> reads. The
  validator lists of \<open>utils/validators\<close> are not among the source files, so the recorded
  errors are an input of the handler. A body field the client left out is \<open>None\<close>.
\<close>

type_synonym msg = string

record article_body =
  b_title :: "string option"
  b_slug :: "string option"
  b_text :: "string option"
  b_user :: "oid option"

record comment_body =
  cb_articleId :: oid
  cb_user :: oid
  cb_body :: string

record user_body =
  ub_name :: "string option"
  ub_isRemoved :: "bool option"

text \<open>
  What the runtime gives a handler: \<open>Date.now\<close> and the ObjectId generator for a create,
  and \<open>String.prototype.toLowerCase\<close>, whose case mapping is the Unicode one and no part
  of this repository.
\<close>

record env =
  now :: int
  newId :: oid
  toLowerCase :: "string \<Rightarrow> string"

record populated_comment =
  cdoc :: comment_doc
  cauthor :: "user_doc option"

record populated_article =
  doc :: article_doc
  author :: "user_doc option"
  comment_docs :: "populated_comment list"

datatype json =
  J_articles "populated_article list"
| J_article "populated_article option"
| J_article_created "article_doc option" "user_doc option"
| J_article_removed article_doc
| J_comment populated_comment
| J_comment_removed "comment_doc option"
| J_user "user_doc option"
| J_errors "msg list"

datatype error = TypeError | CastError | DuplicateKey

text \<open>
  A handler ends in one of four ways: it sends a JSON body; it returns without sending
  anything; its \<open>catch\<close> forwards the error with \<open>next(err)\<close>; or, in the users router,
  which has no \<open>try\<close>, the async handler's promise is rejected and nobody handles it.
\<close>

datatype outcome =
  Json json
| No_response
| Next error
| Unhandled_rejection error

section \<open>Population\<close>

definition populate_user :: "store \<Rightarrow> oid option \<Rightarrow> user_doc option" where
  "populate_user s r = (case r of None \<Rightarrow> None | Some i \<Rightarrow> findOne (\<lambda>u. user_id u = i) (users s))"

definition populate_comments :: "store \<Rightarrow> oid list \<Rightarrow> populated_comment list" where
  "populate_comments s ids =
     map (\<lambda>c. \<lparr>cdoc = c, cauthor = populate_user s (Some (comment_user c))\<rparr>)
       (sort_created_desc comment_created (filter (\<lambda>c. comment_id c \<in> set ids) (comments s)))"

definition populate :: "store \<Rightarrow> article_doc \<Rightarrow> populated_article" where
  "populate s a =
     \<lparr>doc = a, author = populate_user s (article_user a),
      comment_docs = populate_comments s (article_comments a)\<rparr>"

section \<open>Slugs\<close>

text \<open>
  \<open>title.split(' ').join('-').toLowerCase()\<close>. \<open>split\<close> cuts the string at every
  separator and always returns at least one piece; \<open>join\<close> puts the separator between
  the pieces; \<open>toLowerCase\<close> is the runtime's.
\<close>

fun split :: "char \<Rightarrow> string \<Rightarrow> string list" where
  "split sep [] = [[]]"
| "split sep (c # cs) =
     (if c = sep then [] # split sep cs
      else (case split sep cs of [] \<Rightarrow> [[c]] | w # ws \<Rightarrow> (c # w) # ws))"

fun join :: "string \<Rightarrow> string list \<Rightarrow> string" where
  "join sep [] = []"
| "join sep [w] = w"
| "join sep (w # v # ws) = w @ sep @ join sep (v # ws)"

definition slugify :: "env \<Rightarrow> string \<Rightarrow> string" where
  "slugify e t = toLowerCase e (join ''-'' (split CHR '' '' t))"


section \<open>The articles router\<close>

definition duplicate_title :: msg where
  "duplicate_title = ''Article with the same title already exists''"

text \<open>
  \<open>router.get('/')\<close>. The skip count is \<open>Number(req.query.skip)\<close> for a query value
  that is a natural number.
\<close>

definition get_articles :: "nat \<Rightarrow> store \<Rightarrow> outcome \<times> store" where
  "get_articles skip s =
     (Json (J_articles
        (map (populate s) (take 10 (drop skip (sort_created_desc article_created (articles s)))))),
      s)"

text \<open>
  Modelled from the spec: \<open>Article.create\<close> runs the Article model (\<open>models/Article\<close>),
  which is not among the source files. The spec gives it: a new article takes its fields
  from the body, its slug is derived from its title on create (\<S>4.1), it starts with no
  views and no comments and is stamped with its creation time (\<S>3). A body without a
  title has no slug to derive and the create fails. The store refuses a second document
  with an \<open>_id\<close> in use.
\<close>

definition Article_create :: "article_body \<Rightarrow> env \<Rightarrow> article_doc list \<Rightarrow> error + article_doc" where
  "Article_create b e arts =
     (case b_title b of
        None \<Rightarrow> Inl TypeError
      | Some t \<Rightarrow>
          if newId e \<in> article_id ` set arts then Inl DuplicateKey
          else Inr \<lparr>article_id = newId e, title = t, slug = slugify e t, article_text = b_text b,
                    views = 0, article_user = b_user b, article_comments = [],
                    article_created = now e\<rparr>)"

text \<open>\<open>router.post('/', articleValidators, ...)\<close>\<close>

definition post_article :: "msg list \<Rightarrow> article_body \<Rightarrow> env \<Rightarrow> store \<Rightarrow> outcome \<times> store" where
  "post_article errors b e s =
     (if errors \<noteq> [] then (Json (J_errors errors), s)
      else
        (case findOne (\<lambda>a. Some (title a) = b_title b) (articles s) of
           Some validationArticle \<Rightarrow> (Json (J_errors [duplicate_title]), s)
         | None \<Rightarrow>
             (case Article_create b e (articles s) of
                Inl err \<Rightarrow> (Next err, s)
              | Inr newArticle \<Rightarrow>
                  (let s' = s\<lparr>articles := articles s @ [newArticle]\<rparr>;
                       article = findOne (\<lambda>a. article_id a = article_id newArticle) (articles s')
                   in (Json (J_article_created article
                              (case article of None \<Rightarrow> None
                               | Some a \<Rightarrow> populate_user s' (article_user a))), s')))))"

text \<open>\<open>router.get('/:slug')\<close>\<close>

definition get_article :: "string \<Rightarrow> store \<Rightarrow> outcome \<times> store" where
  "get_article sl s =
     (Json (J_article (map_option (populate s) (findOne (\<lambda>a. slug a = sl) (articles s)))), s)"

text \<open>
  \<open>{$set: {...req.body, slug}}\<close>: every field the body carries is written, and the
  computed slug replaces a slug the body may carry.
\<close>

definition set_fields :: "article_body \<Rightarrow> article_doc \<Rightarrow> article_doc" where
  "set_fields b a =
     a\<lparr>title := (case b_title b of None \<Rightarrow> title a | Some t \<Rightarrow> t),
       slug := (case b_slug b of None \<Rightarrow> slug a | Some sl \<Rightarrow> sl),
       article_text := (case b_text b of None \<Rightarrow> article_text a | Some x \<Rightarrow> Some x),
       article_user := (case b_user b of None \<Rightarrow> article_user a | Some u \<Rightarrow> Some u)\<rparr>"

text \<open>
  \<open>router.put('/:articleId', articleValidators, ...)\<close>. Without a title in the body,
  \<open>req.body.title.split\<close> throws a TypeError, which the \<open>catch\<close> forwards.
\<close>

definition put_article ::
  "msg list \<Rightarrow> oid \<Rightarrow> article_body \<Rightarrow> env \<Rightarrow> store \<Rightarrow> outcome \<times> store" where
  "put_article errors articleId b e s =
     (if errors \<noteq> [] then (Json (J_errors errors), s)
      else
        (let validationArticle = findOne (\<lambda>a. Some (title a) = b_title b) (articles s) in
         if (case validationArticle of None \<Rightarrow> False | Some v \<Rightarrow> article_id v \<noteq> articleId)
         then (Json (J_errors [duplicate_title]), s)
         else
           (case b_title b of
              None \<Rightarrow> (Next TypeError, s)
            | Some t \<Rightarrow>
                (let sl = slugify e t;
                     (article, arts) =
                        findOneAndUpdate (\<lambda>a. article_id a = articleId)
                          (set_fields (b\<lparr>b_slug := Some sl\<rparr>)) (articles s);
                     s' = s\<lparr>articles := arts\<rparr>
                 in (Json (J_article (map_option (populate s') article)), s')))))"

text \<open>
  \<open>router.delete('/:articleId')\<close>. The path parameter is whatever string the client
  sent. \<open>findByIdAndRemove\<close> casts it first; when the cast fails it throws, and the
  \<open>catch\<close> forwards the CastError. Nothing is sent when no article was removed.
\<close>

definition delete_article :: "string \<Rightarrow> store \<Rightarrow> outcome \<times> store" where
  "delete_article articleId s =
     (case castObjectId articleId of
        None \<Rightarrow> (Next CastError, s)
      | Some i \<Rightarrow>
          (let (article, arts) = findOneAndRemove (\<lambda>a. article_id a = i) (articles s);
               s1 = s\<lparr>articles := arts\<rparr>
           in case article of
                Some a \<Rightarrow>
                  (Json (J_article_removed a),
                   s1\<lparr>comments :=
                        deleteMany (\<lambda>c. comment_articleId c = article_id a) (comments s1)\<rparr>)
              | None \<Rightarrow> (No_response, s1)))"

text \<open>\<open>router.get('/views/:slug')\<close>, with \<open>{$inc: {views: 1}}\<close>.\<close>

definition get_views :: "string \<Rightarrow> store \<Rightarrow> outcome \<times> store" where
  "get_views sl s =
     (let (article, arts) =
            findOneAndUpdate (\<lambda>a. slug a = sl) (\<lambda>a. a\<lparr>views := inc (views a) 1\<rparr>) (articles s);
          s' = s\<lparr>articles := arts\<rparr>
      in (Json (J_article (map_option (populate s') article)), s'))"

text \<open>
  Modelled from the spec: \<open>Comment.create\<close> runs the Comment model (\<open>models/Comment\<close>),
  which is not among the source files. By \<S>3 a comment has an id, an article reference,
  a user reference, a body and a creation timestamp.
\<close>

definition Comment_create :: "comment_body \<Rightarrow> env \<Rightarrow> comment_doc list \<Rightarrow> error + comment_doc" where
  "Comment_create b e cs =
     (if newId e \<in> comment_id ` set cs then Inl DuplicateKey
      else Inr \<lparr>comment_id = newId e, comment_articleId = cb_articleId b, comment_user = cb_user b,
                comment_body = cb_body b, comment_created = now e\<rparr>)"

text \<open>\<open>router.post('/comments', commentValidators, ...)\<close>\<close>

definition post_comment :: "msg list \<Rightarrow> comment_body \<Rightarrow> env \<Rightarrow> store \<Rightarrow> outcome \<times> store" where
  "post_comment errors b e s =
     (if errors \<noteq> [] then (Json (J_errors errors), s)
      else
        (case Comment_create b e (comments s) of
           Inl err \<Rightarrow> (Next err, s)
         | Inr comment \<Rightarrow>
             (let s1 = s\<lparr>comments := comments s @ [comment]\<rparr>;
                  s2 = s1\<lparr>articles :=
                          updateOne (\<lambda>a. article_id a = cb_articleId b)
                            (\<lambda>a. a\<lparr>article_comments := article_comments a @ [comment_id comment]\<rparr>)
                            (articles s1)\<rparr>
              in (Json (J_comment
                         \<lparr>cdoc = comment, cauthor = populate_user s2 (Some (comment_user comment))\<rparr>),
                  s2))))"

text \<open>\<open>router.delete('/comments/:commentId')\<close>\<close>

definition delete_comment :: "oid \<Rightarrow> store \<Rightarrow> outcome \<times> store" where
  "delete_comment commentId s =
     (let (comment, cs) = findOneAndRemove (\<lambda>c. comment_id c = commentId) (comments s)
      in (Json (J_comment_removed comment), s\<lparr>comments := cs\<rparr>))"

section \<open>The users router\<close>

text \<open>\<open>router.get('/:userId')\<close>\<close>

definition get_user :: "oid \<Rightarrow> store \<Rightarrow> outcome \<times> store" where
  "get_user userId s = (Json (J_user (findOne (\<lambda>u. user_id u = userId) (users s))), s)"

definition set_user_fields :: "user_body \<Rightarrow> user_doc \<Rightarrow> user_doc" where
  "set_user_fields b u =
     u\<lparr>user_name := (case ub_name b of None \<Rightarrow> user_name u | Some n \<Rightarrow> n),
       user_isRemoved := (case ub_isRemoved b of None \<Rightarrow> user_isRemoved u | Some r \<Rightarrow> r)\<rparr>"

text \<open>\<open>router.put('/:userId', editUserValidators, ...)\<close>\<close>

definition put_user :: "msg list \<Rightarrow> oid \<Rightarrow> user_body \<Rightarrow> store \<Rightarrow> outcome \<times> store" where
  "put_user errors userId b s =
     (if errors \<noteq> [] then (Json (J_errors errors), s)
      else
        (let (user, us) = findOneAndUpdate (\<lambda>u. user_id u = userId) (set_user_fields b) (users s)
         in (Json (J_user user), s\<lparr>users := us\<rparr>)))"

text \<open>
  \<open>router.delete('/:userId')\<close>. The four awaited calls in their order: the user is
  flagged, \<open>UserSession.update\<close> (called without \<open>multi\<close>) flags one session, and then
  \<open>user._id\<close> is read. When \<open>user\<close> is null that read throws a TypeError; the handler
  has no \<open>try\<close>, so the two \<open>remove\<close> calls and \<open>res.json\<close> are never reached.
\<close>

definition delete_user :: "oid \<Rightarrow> store \<Rightarrow> outcome \<times> store" where
  "delete_user userId s =
     (let (user, us) =
            findOneAndUpdate (\<lambda>u. user_id u = userId) (\<lambda>u. u\<lparr>user_isRemoved := True\<rparr>) (users s);
          s1 = s\<lparr>users := us\<rparr>;
          s2 = s1\<lparr>sessions :=
                  updateOne (\<lambda>x. session_userId x = userId \<and> session_isRemoved x = False)
                    (\<lambda>x. x\<lparr>session_isRemoved := True\<rparr>) (sessions s1)\<rparr>
      in case user of
           None \<Rightarrow> (Unhandled_rejection TypeError, s2)
         | Some u \<Rightarrow>
             (let s3 = s2\<lparr>articles := deleteMany (\<lambda>a. article_user a = Some (user_id u)) (articles s2)\<rparr>;
                  s4 = s3\<lparr>comments := deleteMany (\<lambda>c. comment_user c = user_id u) (comments s3)\<rparr>
              in (Json (J_user (Some u)), s4)))"

section \<open>Routes and their middleware\<close>

text \<open>
  The eleven routes the two routers register, each request with what its handler reads:
  path parameter, \<open>skip\<close> query, body and, on the four routes registered with a
  validator list, the errors the validators recorded.
\<close>

datatype validators = articleValidators | commentValidators | editUserValidators

datatype request =
  GET_articles nat
| POST_articles "msg list" article_body
| GET_article string
| PUT_article "msg list" oid article_body
| DELETE_article string
| GET_views string
| POST_comments "msg list" comment_body
| DELETE_comment oid
| GET_user oid
| PUT_user "msg list" oid user_body
| DELETE_user oid

fun middleware :: "request \<Rightarrow> validators option" where
  "middleware (POST_articles _ _) = Some articleValidators"
| "middleware (PUT_article _ _ _) = Some articleValidators"
| "middleware (POST_comments _ _) = Some commentValidators"
| "middleware (PUT_user _ _ _) = Some editUserValidators"
| "middleware _ = None"

text \<open>\<open>validationResult(req)\<close>: empty on a route that ran no validator.\<close>

fun validationResult :: "request \<Rightarrow> msg list" where
  "validationResult (POST_articles errors _) = errors"
| "validationResult (PUT_article errors _ _) = errors"
| "validationResult (POST_comments errors _) = errors"
| "validationResult (PUT_user errors _ _) = errors"
| "validationResult _ = []"

text \<open>The routes registered with \<open>post\<close>, \<open>put\<close> or \<open>delete\<close>.\<close>

fun mutating :: "request \<Rightarrow> bool" where
  "mutating (GET_articles _) = False"
| "mutating (GET_article _) = False"
| "mutating (GET_views _) = False"
| "mutating (GET_user _) = False"
| "mutating _ = True"

fun handle :: "request \<Rightarrow> env \<Rightarrow> store \<Rightarrow> outcome \<times> store" where
  "handle (GET_articles skip) e s = get_articles skip s"
| "handle (POST_articles errors b) e s = post_article errors b e s"
| "handle (GET_article sl) e s = get_article sl s"
| "handle (PUT_article errors i b) e s = put_article errors i b e s"
| "handle (DELETE_article i) e s = delete_article i s"
| "handle (GET_views sl) e s = get_views sl s"
| "handle (POST_comments errors b) e s = post_comment errors b e s"
| "handle (DELETE_comment i) e s = delete_comment i s"
| "handle (GET_user i) e s = get_user i s"
| "handle (PUT_user errors i b) e s = put_user errors i b s"
| "handle (DELETE_user i) e s = delete_user i s"

section \<open>Reading a response\<close>

text \<open>The articles a \<open>{articles}\<close> body lists, in its order, without the populated parts.\<close>

definition listed :: "outcome \<Rightarrow> article_doc list" where
  "listed r = (case r of Json (J_articles ps) \<Rightarrow> map doc ps | _ \<Rightarrow> [])"

section \<open>A small blog\<close>

text \<open>
  Two users, three open sessions (two of them the first user's), two articles and three
  comments: the store the concrete evaluations below run on, and the request bodies
  they send. The ids are ObjectIds in string form.
\<close>

abbreviation id_u1 :: oid where "id_u1 \<equiv> ''5e9b7c1d2f3a4b5c6d7e8f01''"
abbreviation id_u2 :: oid where "id_u2 \<equiv> ''5e9b7c1d2f3a4b5c6d7e8f02''"
abbreviation id_s1 :: oid where "id_s1 \<equiv> ''5e9b7c1d2f3a4b5c6d7e8f11''"
abbreviation id_s2 :: oid where "id_s2 \<equiv> ''5e9b7c1d2f3a4b5c6d7e8f12''"
abbreviation id_s3 :: oid where "id_s3 \<equiv> ''5e9b7c1d2f3a4b5c6d7e8f13''"
abbreviation id_a1 :: oid where "id_a1 \<equiv> ''5e9b7c1d2f3a4b5c6d7e8fa1''"
abbreviation id_a2 :: oid where "id_a2 \<equiv> ''5e9b7c1d2f3a4b5c6d7e8fa2''"
abbreviation id_a3 :: oid where "id_a3 \<equiv> ''5e9b7c1d2f3a4b5c6d7e8fa3''"
abbreviation id_a7 :: oid where "id_a7 \<equiv> ''5e9b7c1d2f3a4b5c6d7e8fa7''"
abbreviation id_c1 :: oid where "id_c1 \<equiv> ''5e9b7c1d2f3a4b5c6d7e8fc1''"
abbreviation id_c2 :: oid where "id_c2 \<equiv> ''5e9b7c1d2f3a4b5c6d7e8fc2''"
abbreviation id_c3 :: oid where "id_c3 \<equiv> ''5e9b7c1d2f3a4b5c6d7e8fc3''"

text \<open>
  On a string whose letters are all ASCII, \<open>toLowerCase\<close> maps A to Z to a to z and
  leaves every other character alone; the titles of the blog are such strings.
\<close>

definition ascii_lower :: "string \<Rightarrow> string" where
  "ascii_lower s =
     map (\<lambda>c. let n = (of_char c :: nat) in if 65 \<le> n \<and> n \<le> 90 then char_of (n + 32) else c) s"

definition runtime :: env where
  "runtime = \<lparr>now = 30, newId = id_a3, toLowerCase = ascii_lower\<rparr>"

definition alice :: user_doc where
  "alice = \<lparr>user_id = id_u1, user_name = ''alice'', user_isRemoved = False, user_created = 1\<rparr>"

definition bob :: user_doc where
  "bob = \<lparr>user_id = id_u2, user_name = ''bob'', user_isRemoved = False, user_created = 2\<rparr>"

definition login1 :: session_doc where
  "login1 = \<lparr>session_id = id_s1, session_userId = id_u1, session_isRemoved = False, session_created = 5\<rparr>"

definition login2 :: session_doc where
  "login2 = \<lparr>session_id = id_s2, session_userId = id_u1, session_isRemoved = False, session_created = 6\<rparr>"

definition login3 :: session_doc where
  "login3 = \<lparr>session_id = id_s3, session_userId = id_u2, session_isRemoved = False, session_created = 7\<rparr>"

definition hello :: article_doc where
  "hello = \<lparr>article_id = id_a1, title = ''Hello World'', slug = ''hello-world'',
     article_text = Some ''first'', views = 3, article_user = Some id_u1,
     article_comments = [id_c1, id_c2], article_created = 10\<rparr>"

definition second :: article_doc where
  "second = \<lparr>article_id = id_a2, title = ''Second Post'', slug = ''second-post'',
     article_text = Some ''more'', views = 0, article_user = Some id_u2,
     article_comments = [id_c3], article_created = 20\<rparr>"

definition nice :: comment_doc where
  "nice = \<lparr>comment_id = id_c1, comment_articleId = id_a1, comment_user = id_u2,
     comment_body = ''nice'', comment_created = 11\<rparr>"

definition thanks :: comment_doc where
  "thanks = \<lparr>comment_id = id_c2, comment_articleId = id_a1, comment_user = id_u1,
     comment_body = ''thanks'', comment_created = 12\<rparr>"

definition agreed :: comment_doc where
  "agreed = \<lparr>comment_id = id_c3, comment_articleId = id_a2, comment_user = id_u1,
     comment_body = ''agreed'', comment_created = 21\<rparr>"

definition blog :: store where
  "blog = \<lparr>users = [alice, bob], sessions = [login1, login2, login3],
     articles = [hello, second], comments = [nice, thanks, agreed]\<rparr>"





definition dup_body :: article_body where
  "dup_body = \<lparr>b_title = Some ''Hello World'', b_slug = None, b_text = None, b_user = Some id_u2\<rparr>"





text \<open>The blog with the first article's counter at \<open>2^53\<close>.\<close>

definition busy :: store where
  "busy = blog\<lparr>articles := [hello\<lparr>views := 9007199254740992\<rparr>, second]\<rparr>"

lemmas docs = alice_def bob_def login1_def login2_def login3_def hello_def second_def
  nice_def thanks_def agreed_def blog_def

section \<open>Facts about the store operations\<close>

lemma findOne_Some: "findOne P xs = Some x \<Longrightarrow> x \<in> set xs \<and> P x"
  by (auto simp: findOne_def find_Some_iff)

lemma findOne_None: "findOne P xs = None \<longleftrightarrow> (\<forall>x\<in>set xs. \<not> P x)"
  by (auto simp: findOne_def find_None_iff)


lemma findOne_updateOne:
  "(\<And>x. P x \<Longrightarrow> P (f x)) \<Longrightarrow> findOne P (updateOne P f xs) = map_option f (findOne P xs)"
  by (induction xs) (auto simp: findOne_def)

lemma updateOne_none: "\<forall>x\<in>set xs. \<not> P x \<Longrightarrow> updateOne P f xs = xs"
  by (induction xs) auto

lemma set_updateOne: "set (updateOne P f xs) \<subseteq> set xs \<union> f ` set xs"
  by (induction xs) auto

lemma map_updateOne_same:
  "\<forall>x\<in>set xs. P x \<longrightarrow> g (f x) = g x \<Longrightarrow> map g (updateOne P f xs) = map g xs"
  by (induction xs) auto

lemma distinct_updateOne_fresh:
  "distinct (map g xs) \<Longrightarrow> \<forall>x\<in>set xs. g x \<noteq> t \<Longrightarrow> \<forall>x. g (f x) = t \<Longrightarrow>
     distinct (map g (updateOne P f xs))"
proof (induction xs)
  case Nil
  then show ?case by simp
next
  case (Cons x xs)
  show ?case
  proof (cases "P x")
    case True
    then show ?thesis using Cons.prems by (auto simp: image_iff)
  next
    case False
    have ih: "distinct (map g (updateOne P f xs))"
      using Cons.IH Cons.prems by simp
    have "g x \<notin> g ` (set xs \<union> f ` set xs)"
      using Cons.prems by (auto simp: image_iff)
    then have "g x \<notin> g ` set (updateOne P f xs)"
      using set_updateOne [of P f xs] by blast
    then show ?thesis using False ih by simp
  qed
qed

lemma removeOne_none: "\<forall>x\<in>set xs. \<not> P x \<Longrightarrow> removeOne P xs = xs"
  by (induction xs) auto

lemma removeOne_remove1: "findOne P xs = Some x \<Longrightarrow> removeOne P xs = remove1 x xs"
  by (induction xs) (auto simp: findOne_def find_Some_iff split: if_splits)

lemma removeOne_distinct_key:
  "distinct (map k xs) \<Longrightarrow> i \<notin> k ` set (removeOne (\<lambda>x. k x = i) xs)"
  by (induction xs) (auto)

text \<open>Sorting by creation time, newest first, orders the documents and keeps them all.\<close>

lemma sorted_created_desc:
  "sorted_wrt (\<lambda>a b. created b \<le> created a) (sort_created_desc created xs)"
proof -
  have "sorted (map (\<lambda>x. - created x) (sort_key (\<lambda>x. - created x) xs))"
    by (rule sorted_sort_key)
  then show ?thesis
    by (simp add: sort_created_desc_def sorted_wrt_map)
qed

lemma mset_sort_created_desc: "mset (sort_created_desc created xs) = mset xs"
  by (simp add: sort_created_desc_def)

lemma listed_get_articles:
  "listed (fst (get_articles n s)) = take 10 (drop n (sort_created_desc article_created (articles s)))"
  by (simp add: listed_def get_articles_def populate_def comp_def)

text \<open>With unique titles, looking a stored title up finds the article that carries it.\<close>

lemma findOne_title_held:
  "t \<in> title ` set xs \<Longrightarrow> \<exists>v. findOne (\<lambda>a. Some (title a) = Some t) xs = Some v"
  by (cases "findOne (\<lambda>a. Some (title a) = Some t) xs") (auto simp: findOne_None)


section \<open>The slug, as computed and as specified\<close>







section \<open>What a create and an update write\<close>


lemma put_article_written:
  assumes "put_article errors i b e s = (Json (J_article (Some p)), s')"
  shows "b_title b = Some (title (doc p)) \<and> slug (doc p) = slugify e (title (doc p))
     \<and> findOne (\<lambda>x. article_id x = i) (articles s') = Some (doc p)"
proof -
  from assms have e: "errors = []"
    by (auto simp: put_article_def split: if_splits)
  from assms e obtain t where t: "b_title b = Some t"
    by (cases "b_title b") (auto simp: put_article_def Let_def split: if_splits option.splits)
  let ?f = "set_fields (b\<lparr>b_slug := Some (slugify e t)\<rparr>)"
  let ?arts = "updateOne (\<lambda>a. article_id a = i) ?f (articles s)"
  from assms e t have r: "map_option (populate (s\<lparr>articles := ?arts\<rparr>)) (map_option ?f (findOne (\<lambda>a. article_id a = i) (articles s))) = Some p"
    and s': "s' = s\<lparr>articles := ?arts\<rparr>"
    by (auto simp: put_article_def Let_def findOneAndUpdate_def split: if_splits option.splits)
  from r obtain a where a: "findOne (\<lambda>a. article_id a = i) (articles s) = Some a"
    and p: "p = populate (s\<lparr>articles := ?arts\<rparr>) (?f a)"
    by auto
  have "findOne (\<lambda>x. article_id x = i) ?arts = map_option ?f (findOne (\<lambda>x. article_id x = i) (articles s))"
    by (rule findOne_updateOne) (simp add: set_fields_def)
  then show ?thesis
    using a p s' t by (simp add: populate_def set_fields_def)
qed



text \<open>
  Title uniqueness is kept by the existence checks alone: a create or an update on a
  store with unique ids and titles leaves a store with unique ids and titles.
\<close>

lemma post_article_keeps_unique:
  assumes "distinct (map article_id (articles s))" and "distinct (map title (articles s))"
  shows "distinct (map article_id (articles (snd (post_article errors b e s))))
     \<and> distinct (map title (articles (snd (post_article errors b e s))))"
proof (cases "Article_create b e (articles s)")
  case (Inl err)
  then have "snd (post_article errors b e s) = s"
    by (simp add: post_article_def split: option.splits)
  then show ?thesis using assms by simp
next
  case (Inr new)
  then have fresh: "article_id new \<notin> article_id ` set (articles s)" and t: "b_title b = Some (title new)"
    by (auto simp: Article_create_def split: option.splits if_splits)
  show ?thesis
  proof (cases "errors = [] \<and> findOne (\<lambda>a. Some (title a) = b_title b) (articles s) = None")
    case True
    then have "title new \<notin> title ` set (articles s)"
      using t by (auto simp: findOne_None)
    moreover have "articles (snd (post_article errors b e s)) = articles s @ [new]"
      using True Inr by (simp add: post_article_def Let_def)
    ultimately show ?thesis using assms fresh by simp
  next
    case False
    then have "snd (post_article errors b e s) = s"
      by (auto simp: post_article_def)
    then show ?thesis using assms by simp
  qed
qed

lemma put_article_keeps_unique:
  assumes ids: "distinct (map article_id (articles s))" and ts: "distinct (map title (articles s))"
  shows "distinct (map article_id (articles (snd (put_article errors i b e s))))
     \<and> distinct (map title (articles (snd (put_article errors i b e s))))"
proof (cases "\<exists>p s'. put_article errors i b e s = (Json (J_article (Some p)), s')")
  case True
  then obtain p s' where p: "put_article errors i b e s = (Json (J_article (Some p)), s')"
    by blast
  from p have e: "errors = []"
    by (auto simp: put_article_def split: if_splits)
  from put_article_written [OF p] obtain t where t: "b_title b = Some t"
    by simp
  let ?f = "set_fields (b\<lparr>b_slug := Some (slugify e t)\<rparr>)"
  from p e t have s': "articles s' = updateOne (\<lambda>a. article_id a = i) ?f (articles s)"
    and chk: "\<not> (case findOne (\<lambda>a. Some (title a) = b_title b) (articles s) of
                 None \<Rightarrow> False | Some v \<Rightarrow> article_id v \<noteq> i)"
    by (auto simp: put_article_def Let_def findOneAndUpdate_def split: if_splits)
  have i: "map article_id (updateOne (\<lambda>a. article_id a = i) ?f (articles s)) = map article_id (articles s)"
    by (rule map_updateOne_same) (simp add: set_fields_def)
  have "distinct (map title (updateOne (\<lambda>a. article_id a = i) ?f (articles s)))"
  proof (cases "findOne (\<lambda>a. Some (title a) = b_title b) (articles s)")
    case None
    then have "\<forall>x\<in>set (articles s). title x \<noteq> t"
      using t by (auto simp: findOne_None)
    moreover have "\<forall>x. title (?f x) = t"
      using t by (simp add: set_fields_def)
    ultimately show ?thesis
      using ts by (rule distinct_updateOne_fresh [where t = t, rotated])
  next
    case (Some v)
    with chk have vi: "article_id v = i" by simp
    from findOne_Some [OF Some] t have v: "v \<in> set (articles s)" "title v = t"
      by auto
    have "\<forall>x\<in>set (articles s). article_id x = i \<longrightarrow> title (?f x) = title x"
    proof (intro ballI impI)
      fix x assume "x \<in> set (articles s)" "article_id x = i"
      with v vi ids have "x = v"
        by (auto simp: distinct_map inj_on_def)
      then show "title (?f x) = title x"
        using t v by (simp add: set_fields_def)
    qed
    then have "map title (updateOne (\<lambda>a. article_id a = i) ?f (articles s)) = map title (articles s)"
      by (rule map_updateOne_same)
    then show ?thesis using ts by simp
  qed
  then show ?thesis
    using p s' i ids by simp
next
  case False
  have "snd (put_article errors i b e s) = s"
  proof (cases "\<exists>t. errors = [] \<and> b_title b = Some t \<and>
      \<not> (case findOne (\<lambda>a. Some (title a) = b_title b) (articles s) of
                 None \<Rightarrow> False | Some v \<Rightarrow> article_id v \<noteq> i)")
    case True
    then obtain t where t: "errors = []" "b_title b = Some t" and chk: "\<not> (case findOne (\<lambda>a. Some (title a) = b_title b) (articles s) of
                 None \<Rightarrow> False | Some v \<Rightarrow> article_id v \<noteq> i)"
      by blast
    have "findOne (\<lambda>a. article_id a = i) (articles s) = None"
    proof (rule ccontr)
      assume "findOne (\<lambda>a. article_id a = i) (articles s) \<noteq> None"
      then obtain a where "findOne (\<lambda>a. article_id a = i) (articles s) = Some a" by auto
      then have "\<exists>p s'. put_article errors i b e s = (Json (J_article (Some p)), s')"
        using t chk by (auto simp: put_article_def Let_def findOneAndUpdate_def)
      with False show False by simp
    qed
    then have "updateOne (\<lambda>a. article_id a = i) (set_fields (b\<lparr>b_slug := Some (slugify e t)\<rparr>)) (articles s) = articles s"
      by (simp add: findOne_None updateOne_none)
    then show ?thesis
      using t chk by (auto simp: put_article_def Let_def findOneAndUpdate_def)
  next
    case False
    then show ?thesis
      by (auto simp: put_article_def Let_def split: option.splits)
  qed
  then show ?thesis using assms by simp
qed

section \<open>Removing a user\<close>

text \<open>
  What the delete route does for a user that exists: it flags the user and answers with
  the flagged document, flags the first open session of that user, and deletes every
  article and every comment whose user reference is the user's id.
\<close>

lemma delete_user_existing:
  assumes "findOne (\<lambda>u. user_id u = userId) (users s) = Some u"
  shows "delete_user userId s =
     (Json (J_user (Some (u\<lparr>user_isRemoved := True\<rparr>))),
      \<lparr>users = updateOne (\<lambda>u. user_id u = userId) (\<lambda>u. u\<lparr>user_isRemoved := True\<rparr>) (users s),
       sessions = updateOne (\<lambda>x. session_userId x = userId \<and> session_isRemoved x = False)
                    (\<lambda>x. x\<lparr>session_isRemoved := True\<rparr>) (sessions s),
       articles = filter (\<lambda>a. article_user a \<noteq> Some userId) (articles s),
       comments = filter (\<lambda>c. comment_user c \<noteq> userId) (comments s)\<rparr>)"
proof -
  from findOne_Some [OF assms] have "user_id u = userId"
    by simp
  then show ?thesis
    using assms by (simp add: delete_user_def findOneAndUpdate_def deleteMany_def Let_def)
qed

text \<open>
  Claim C1. A delete request for an existing user (a) flags the user as removed and
  keeps the record, (b) marks all of the user's open sessions as removed, (c) deletes
  the user's articles and (d) deletes the user's comments. The handler does (a), (c)
  and (d), but \<open>UserSession.update\<close> is called without \<open>multi: true\<close> and so changes one
  session only. In the blog, where the first user has two open sessions, removing that
  user closes the first and leaves the second open.
\<close>

theorem delete_user_leaves_session_open:
  "delete_user id_u1 blog =
     (Json (J_user (Some (alice\<lparr>user_isRemoved := True\<rparr>))),
      \<lparr>users = [alice\<lparr>user_isRemoved := True\<rparr>, bob],
       sessions = [login1\<lparr>session_isRemoved := True\<rparr>, login2, login3],
       articles = [second], comments = [nice]\<rparr>)
   \<and> session_userId login2 = id_u1 \<and> session_isRemoved login2 = False"
  by (simp add: delete_user_def findOneAndUpdate_def findOne_def deleteMany_def docs)



section \<open>Slug derivation\<close>



section \<open>Title uniqueness\<close>

text \<open>
  Claim C3, as amended. A create whose title is the title of a stored article writes
  nothing; it is answered with the duplicate-title error when the request passed
  validation, and with the validation errors otherwise, since the validation check
  comes first.
\<close>

theorem post_article_duplicate:
  "\<exists>a\<in>set (articles s). b_title b = Some (title a) \<Longrightarrow>
     post_article errors b e s =
       (Json (J_errors (if errors = [] then [duplicate_title] else errors)), s)"
proof -
  assume "\<exists>a\<in>set (articles s). b_title b = Some (title a)"
  then obtain t where t: "b_title b = Some t" and "t \<in> title ` set (articles s)"
    by auto
  then obtain v where "findOne (\<lambda>a. Some (title a) = b_title b) (articles s) = Some v"
    using findOne_title_held [of t "articles s"] by auto
  then show ?thesis
    by (simp add: post_article_def)
qed

theorem post_article_duplicate_witness:
  "post_article [] dup_body runtime blog = (Json (J_errors [duplicate_title]), blog)"
proof -
  have h: "\<exists>a\<in>set (articles blog). b_title dup_body = Some (title a)"
    by (simp add: dup_body_def docs)
  show ?thesis
    using post_article_duplicate [OF h, of "[]" "runtime"] by simp
qed

text \<open>
  Claim C3 as stated promises the duplicate-title error for every such request. A
  request with the title of the first article of the blog and a validation error is
  answered with the validation error.
\<close>

theorem post_article_duplicate_counterexample:
  "hello \<in> set (articles blog) \<and> b_title dup_body = Some (title hello)
   \<and> post_article [''Text is required''] dup_body runtime blog =
       (Json (J_errors [''Text is required'']), blog)
   \<and> post_article [''Text is required''] dup_body runtime blog \<noteq>
       (Json (J_errors [duplicate_title]), blog)"
  by (simp add: post_article_def dup_body_def duplicate_title_def docs)




section \<open>Removing an article\<close>

text \<open>
  Claim C5, as amended. A delete request whose path parameter casts to an ObjectId and
  names an article that exists removes that article, then removes every comment whose
  article reference is the article's id, and answers with the removed article; once
  ids are unique no article with that id is left. When the parameter casts to an id no
  article has, no response is sent at all and the whole store, comments included, is
  left as it was. When the parameter does not cast, the store is left as it was and
  the CastError is forwarded with \<open>next\<close>.
\<close>

theorem delete_article_cascade:
  "(\<forall>i a. castObjectId articleId = Some i
        \<and> findOne (\<lambda>x. article_id x = i) (articles s) = Some a \<longrightarrow>
      delete_article articleId s =
        (Json (J_article_removed a),
         s\<lparr>articles := remove1 a (articles s),
           comments := filter (\<lambda>c. comment_articleId c \<noteq> i) (comments s)\<rparr>)
      \<and> (distinct (map article_id (articles s)) \<longrightarrow>
           i \<notin> article_id ` set (articles (snd (delete_article articleId s)))))
   \<and> (\<forall>i. castObjectId articleId = Some i \<and> i \<notin> article_id ` set (articles s) \<longrightarrow>
        delete_article articleId s = (No_response, s))
   \<and> (castObjectId articleId = None \<longrightarrow> delete_article articleId s = (Next CastError, s))"
proof (intro conjI allI impI)
  fix i a
  assume h: "castObjectId articleId = Some i
        \<and> findOne (\<lambda>x. article_id x = i) (articles s) = Some a"
  then have f: "findOne (\<lambda>x. article_id x = i) (articles s) = Some a"
    by simp
  have ia: "article_id a = i"
    using findOne_Some [OF f] by simp
  show d: "delete_article articleId s =
        (Json (J_article_removed a),
         s\<lparr>articles := remove1 a (articles s),
           comments := filter (\<lambda>c. comment_articleId c \<noteq> i) (comments s)\<rparr>)"
    using h ia by (simp add: delete_article_def findOneAndRemove_def deleteMany_def removeOne_remove1)
  assume "distinct (map article_id (articles s))"
  then have "i \<notin> article_id ` set (removeOne (\<lambda>x. article_id x = i) (articles s))"
    by (rule removeOne_distinct_key)
  then show "i \<notin> article_id ` set (articles (snd (delete_article articleId s)))"
    using f d by (simp add: removeOne_remove1)
next
  fix i
  assume h: "castObjectId articleId = Some i \<and> i \<notin> article_id ` set (articles s)"
  then have n: "\<forall>x\<in>set (articles s). \<not> article_id x = i"
    by auto
  then have "findOne (\<lambda>x. article_id x = i) (articles s) = None"
    by (simp add: findOne_None)
  then show "delete_article articleId s = (No_response, s)"
    using h n by (simp add: delete_article_def findOneAndRemove_def removeOne_none)
next
  assume "castObjectId articleId = None"
  then show "delete_article articleId s = (Next CastError, s)"
    by (simp add: delete_article_def)
qed

lemma cast_id_a1: "castObjectId id_a1 = Some id_a1"
  by code_simp

lemma cast_id_a7: "castObjectId id_a7 = Some id_a7"
  by code_simp

lemma cast_upper_a1: "castObjectId ''5E9B7C1D2F3A4B5C6D7E8FA1'' = Some id_a1"
  by code_simp

lemma cast_not_an_id: "castObjectId ''not-an-id'' = None"
  by code_simp

theorem delete_article_cascade_witness:
  "delete_article id_a1 blog =
     (Json (J_article_removed hello), blog\<lparr>articles := [second], comments := [agreed]\<rparr>)
   \<and> id_a1 \<notin> article_id ` set (articles (snd (delete_article id_a1 blog)))
   \<and> delete_article ''5E9B7C1D2F3A4B5C6D7E8FA1'' blog =
     (Json (J_article_removed hello), blog\<lparr>articles := [second], comments := [agreed]\<rparr>)
   \<and> delete_article id_a7 blog = (No_response, blog)
   \<and> delete_article ''not-an-id'' blog = (Next CastError, blog)"
proof -
  have f: "findOne (\<lambda>x. article_id x = id_a1) (articles blog) = Some hello"
    by (simp add: findOne_def docs)
  have d: "distinct (map article_id (articles blog))"
    by (simp add: docs)
  have n: "id_a7 \<notin> article_id ` set (articles blog)"
    by (simp add: docs)
  have r: "remove1 hello (articles blog) = [second]"
    by (simp add: docs)
  have c: "filter (\<lambda>c. comment_articleId c \<noteq> id_a1) (comments blog) = [agreed]"
    by (simp add: docs)
  from delete_article_cascade [of id_a1 blog] cast_id_a1 f d
  have 1: "delete_article id_a1 blog =
        (Json (J_article_removed hello),
         blog\<lparr>articles := remove1 hello (articles blog),
           comments := filter (\<lambda>c. comment_articleId c \<noteq> id_a1) (comments blog)\<rparr>)
      \<and> id_a1 \<notin> article_id ` set (articles (snd (delete_article id_a1 blog)))"
    by blast
  from delete_article_cascade [of "''5E9B7C1D2F3A4B5C6D7E8FA1''" blog] cast_upper_a1 f
  have 2: "delete_article ''5E9B7C1D2F3A4B5C6D7E8FA1'' blog =
        (Json (J_article_removed hello),
         blog\<lparr>articles := remove1 hello (articles blog),
           comments := filter (\<lambda>c. comment_articleId c \<noteq> id_a1) (comments blog)\<rparr>)"
    by blast
  from delete_article_cascade [of id_a7 blog] cast_id_a7 n
  have 3: "delete_article id_a7 blog = (No_response, blog)"
    by blast
  from delete_article_cascade [of "''not-an-id''" blog] cast_not_an_id
  have 4: "delete_article ''not-an-id'' blog = (Next CastError, blog)"
    by blast
  from 1 2 3 4 show ?thesis
    unfolding r c by blast
qed

text \<open>
  Claim C5 as stated promises a silent no-op whenever the article does not exist. No
  article of the blog has the id \<open>not-an-id\<close>, and a delete request for it is not
  silent: the handler forwards a CastError.
\<close>

theorem delete_article_cascade_counterexample:
  "''not-an-id'' \<notin> article_id ` set (articles blog)
   \<and> delete_article ''not-an-id'' blog = (Next CastError, blog)
   \<and> fst (delete_article ''not-an-id'' blog) \<noteq> No_response"
  by (simp add: delete_article_def cast_not_an_id docs)

section \<open>Removing a comment\<close>



section \<open>Listing articles\<close>

text \<open>
  Claim C7. A list request with skip count \<open>n\<close> answers with an \<open>{articles}\<close> body and
  leaves the store alone. The articles listed are the ten that follow the first \<open>n\<close>
  in the stored articles sorted by creation time, newest first: at most ten, newest
  first themselves, and the pages for skip 0 and skip 10 together are the first twenty.
\<close>

theorem get_articles_page:
  "(\<exists>ps. get_articles n s = (Json (J_articles ps), s))
   \<and> listed (fst (get_articles n s)) =
       take 10 (drop n (sort_created_desc article_created (articles s)))
   \<and> mset (sort_created_desc article_created (articles s)) = mset (articles s)
   \<and> sorted_wrt (\<lambda>a b. article_created b \<le> article_created a)
       (sort_created_desc article_created (articles s))
   \<and> length (listed (fst (get_articles n s))) \<le> 10
   \<and> sorted_wrt (\<lambda>a b. article_created b \<le> article_created a) (listed (fst (get_articles n s)))
   \<and> listed (fst (get_articles 0 s)) @ listed (fst (get_articles 10 s)) =
       take 20 (sort_created_desc article_created (articles s))"
proof -
  let ?xs = "sort_created_desc article_created (articles s)"
  have pages: "take 10 (drop 0 ?xs) @ take 10 (drop 10 ?xs) = take 20 ?xs"
    using take_add [of 10 10 ?xs] by simp
  have srt: "sorted_wrt (\<lambda>a b. article_created b \<le> article_created a) (take 10 (drop n ?xs))"
    by (intro sorted_wrt_take sorted_wrt_drop sorted_created_desc)
  show ?thesis
    unfolding listed_get_articles
    using pages srt by (simp add: get_articles_def sorted_created_desc mset_sort_created_desc)
qed

theorem get_articles_page_witness:
  "listed (fst (get_articles 0 blog)) = [second, hello]
   \<and> listed (fst (get_articles 1 blog)) = [hello]
   \<and> listed (fst (get_articles 10 blog)) = []"
proof -
  have s: "sort_created_desc article_created (articles blog) = [second, hello]"
    by (simp add: sort_created_desc_def docs)
  show ?thesis
    using get_articles_page [of 0 blog] get_articles_page [of 1 blog] get_articles_page [of 10 blog]
    by (simp add: s)
qed

section \<open>Reading an article and counting the view\<close>

text \<open>Adding one to a counter is exact as long as the counter stays within \<open>2^53\<close>.\<close>

lemma ulp_small: "a < 2 ^ 53 \<Longrightarrow> ulp a = 1"
  by (subst ulp.simps) simp

lemma ulp_limit: "ulp 9007199254740992 = 2"
  by (subst ulp.simps) (simp add: ulp_small)

lemma to_double_exact: "\<bar>m\<bar> \<le> 2 ^ 53 \<Longrightarrow> to_double m = m"
proof -
  assume b: "\<bar>m\<bar> \<le> 2 ^ 53"
  show ?thesis
  proof (cases "nat \<bar>m\<bar> < 2 ^ 53")
    case True
    then have "ulp (nat \<bar>m\<bar>) = 1"
      by (rule ulp_small)
    then have "to_double m = sgn m * int (nat \<bar>m\<bar>)"
      by (simp add: to_double_def)
    then show ?thesis
      by (simp add: mult_sgn_abs)
  next
    case False
    with b have a: "nat \<bar>m\<bar> = 9007199254740992"
      by simp
    then have i: "\<bar>m\<bar> = 9007199254740992"
      by simp
    have "to_double m = sgn m * 9007199254740992"
      by (simp add: to_double_def a ulp_limit Let_def)
    moreover have "sgn m * \<bar>m\<bar> = m"
      by (rule mult_sgn_abs)
    ultimately show ?thesis
      using i by simp
  qed
qed

lemma inc_exact: "- (2 ^ 53) \<le> v \<Longrightarrow> v < 2 ^ 53 \<Longrightarrow> inc v 1 = v + 1"
  unfolding inc_def by (rule to_double_exact) linarith

text \<open>
  Claim C8, as amended. When some stored article has the requested slug, the views
  route answers with the first such article after the increment; the article stored
  under that slug afterwards is the one returned, and nothing else in the store
  changes. When the counter stored before is an integer from \<open>-2^53\<close> up to, but not
  including, \<open>2^53\<close>, the counter returned is one above it.
\<close>

theorem get_views_increments:
  "findOne (\<lambda>x. slug x = sl) (articles s) = Some a \<Longrightarrow>
     (\<exists>p s'. get_views sl s = (Json (J_article (Some p)), s')
        \<and> doc p = a\<lparr>views := inc (views a) 1\<rparr>
        \<and> findOne (\<lambda>x. slug x = sl) (articles s') = Some (doc p)
        \<and> articles s' = updateOne (\<lambda>x. slug x = sl) (\<lambda>x. x\<lparr>views := inc (views x) 1\<rparr>) (articles s)
        \<and> users s' = users s \<and> sessions s' = sessions s \<and> comments s' = comments s
        \<and> (- (2 ^ 53) \<le> views a \<and> views a < 2 ^ 53 \<longrightarrow>
             views (doc p) = views a + 1 \<and> doc p = a\<lparr>views := views a + 1\<rparr>))"
proof -
  assume f: "findOne (\<lambda>x. slug x = sl) (articles s) = Some a"
  have "findOne (\<lambda>x. slug x = sl) (updateOne (\<lambda>x. slug x = sl) (\<lambda>x. x\<lparr>views := inc (views x) 1\<rparr>) (articles s))
        = map_option (\<lambda>x. x\<lparr>views := inc (views x) 1\<rparr>) (findOne (\<lambda>x. slug x = sl) (articles s))"
    by (rule findOne_updateOne) simp
  then show ?thesis
    using f by (auto simp: get_views_def findOneAndUpdate_def populate_def Let_def inc_exact)
qed

theorem get_views_increments_witness:
  "\<exists>p s'. get_views ''hello-world'' blog = (Json (J_article (Some p)), s')
        \<and> views (doc p) = 4
        \<and> findOne (\<lambda>x. slug x = ''hello-world'') (articles s') = Some (doc p)"
proof -
  have f: "findOne (\<lambda>x. slug x = ''hello-world'') (articles blog) = Some hello"
    by (simp add: findOne_def docs)
  have v: "views hello = 3"
    by (simp add: hello_def)
  from get_views_increments [OF f] obtain p s' where
    "get_views ''hello-world'' blog = (Json (J_article (Some p)), s')"
    "findOne (\<lambda>x. slug x = ''hello-world'') (articles s') = Some (doc p)"
    "- (2 ^ 53) \<le> views hello \<and> views hello < 2 ^ 53 \<longrightarrow> views (doc p) = views hello + 1"
    by blast
  then show ?thesis
    unfolding v by auto
qed

text \<open>
  Claim C8 as stated promises the prior value plus one for every stored article. In
  the store \<open>busy\<close> the first article's counter is \<open>2^53\<close>; the views route returns
  and stores that same value, because \<open>2^53 + 1\<close> is not a double and rounds back.
\<close>

lemma ulp_above: "ulp 9007199254740993 = 2"
  by (subst ulp.simps) (simp add: ulp_small)

lemma inc_at_limit: "inc 9007199254740992 1 = 9007199254740992"
  by (simp add: inc_def to_double_def ulp_above Let_def)

theorem get_views_increments_counterexample:
  "findOne (\<lambda>x. slug x = ''hello-world'') (articles busy) = Some (hello\<lparr>views := 9007199254740992\<rparr>)
   \<and> get_views ''hello-world'' busy =
       (Json (J_article (Some (populate busy (hello\<lparr>views := 9007199254740992\<rparr>)))), busy)
   \<and> views (hello\<lparr>views := 9007199254740992\<rparr>) + 1 \<noteq> 9007199254740992"
  by (simp add: get_views_def findOneAndUpdate_def findOne_def inc_at_limit busy_def docs Let_def)

section \<open>Validation before storage\<close>

text \<open>
  Claim C9, as amended. The routes registered with a validator list are exactly the two
  article writes, the comment create and the user update. On each of them a request
  with validation errors is answered with those errors and the store is left as it
  was. The other routes run no validator and have no validation errors to report.
\<close>

theorem validation_first:
  "(middleware r \<noteq> None \<longleftrightarrow>
      (\<exists>errors b. r = POST_articles errors b) \<or> (\<exists>errors i b. r = PUT_article errors i b)
      \<or> (\<exists>errors b. r = POST_comments errors b) \<or> (\<exists>errors i b. r = PUT_user errors i b))
   \<and> (middleware r \<noteq> None \<and> validationResult r \<noteq> [] \<longrightarrow>
        handle r e s = (Json (J_errors (validationResult r)), s))
   \<and> (middleware r = None \<longrightarrow> validationResult r = [])"
  by (cases r)
    (simp_all add: post_article_def put_article_def post_comment_def put_user_def)

theorem validation_first_witness:
  "handle (POST_articles [''Title is required''] dup_body) runtime blog =
     (Json (J_errors [''Title is required'']), blog)
   \<and> handle (PUT_user [''Name is too short''] id_u1 \<lparr>ub_name = Some ''a'', ub_isRemoved = None\<rparr>)
       runtime blog = (Json (J_errors [''Name is too short'']), blog)"
  using validation_first [of "POST_articles [''Title is required''] dup_body" "runtime" blog]
    validation_first [of "PUT_user [''Name is too short''] id_u1 \<lparr>ub_name = Some ''a'', ub_isRemoved = None\<rparr>"
      "runtime" blog]
  by simp

text \<open>
  Claim C9 as stated speaks of every mutating route. The article delete route is
  registered without a validator list, and it writes: in the blog it removes the first
  article and that article's comments.
\<close>

theorem validation_first_counterexample:
  "mutating (DELETE_article id_a1)
   \<and> middleware (DELETE_article id_a1) = None
   \<and> handle (DELETE_article id_a1) runtime blog =
       (Json (J_article_removed hello), blog\<lparr>articles := [second], comments := [agreed]\<rparr>)
   \<and> blog\<lparr>articles := [second], comments := [agreed]\<rparr> \<noteq> blog"
  by (simp add: delete_article_def cast_id_a1 findOneAndRemove_def findOne_def deleteMany_def docs)

end
